theory Spec2Isabelle
  imports Main "HOL-Library.Word"
begin

section \<open>Python values handled by the converter\<close>

text \<open>
  \<^verbatim>\<open>main.py\<close> never inspects the object a parser returns: \<^verbatim>\<open>data\<close> is handed from
  \<^verbatim>\<open>load_file\<close> to \<^verbatim>\<open>write_file\<close> as it is. The objects are Python's: \<^verbatim>\<open>None\<close>, \<^verbatim>\<open>bool\<close>,
  \<^verbatim>\<open>int\<close> (unbounded), \<^verbatim>\<open>float\<close> (an IEEE double, kept as its 64 bits), \<^verbatim>\<open>str\<close>, \<^verbatim>\<open>list\<close>
  and \<^verbatim>\<open>dict\<close> (insertion ordered, hence an association list; a key is any object).
  \<open>Opaque\<close> stands for an object of any other Python type, named by its type.
\<close>

datatype pyvalue =
    Null
  | Boolean bool
  | Integer int
  | Floating "64 word"
  | String string
  | Sequence "pyvalue list"
  | Mapping "(pyvalue \<times> pyvalue) list"
  | Opaque string

fun is_mapping :: "pyvalue \<Rightarrow> bool" where
  "is_mapping (Mapping kvs) = True"
| "is_mapping v = False"

fun is_str :: "pyvalue \<Rightarrow> bool" where
  "is_str (String s) = True"
| "is_str v = False"

text \<open>
  Modelled from the spec: the Generic Value of section 3 (null, boolean, number, string,
  ordered sequence of Generic Value, mapping from string key to Generic Value). It is the
  part of the Python objects above that the spec calls a value tree.
\<close>

fun generic :: "pyvalue \<Rightarrow> bool" where
  "generic Null = True"
| "generic (Boolean b) = True"
| "generic (Integer i) = True"
| "generic (Floating x) = True"
| "generic (String s) = True"
| "generic (Sequence vs) = list_all generic vs"
| "generic (Mapping kvs) = list_all (\<lambda>kv. is_str (fst kv) \<and> generic (snd kv)) kvs"
| "generic (Opaque t) = False"

section \<open>Exceptions\<close>

text \<open>
  The exception classes that \<^verbatim>\<open>main.py\<close> names in an \<^verbatim>\<open>except\<close> clause or raises, with
  the builtin classes \<^verbatim>\<open>open\<close> raises and \<^verbatim>\<open>AttributeError\<close>, which the lookup of a name
  that a module does not have raises. An exception of any other class is represented
  by its nearest ancestor in this list, which every \<^verbatim>\<open>except\<close> clause of the program
  treats alike. \<open>mro\<close> is the method resolution order of a class, as Python has it:
  \<^verbatim>\<open>json.JSONDecodeError\<close> and \<^verbatim>\<open>toml.TomlDecodeError\<close> derive from \<^verbatim>\<open>ValueError\<close>, the
  file errors from \<^verbatim>\<open>OSError\<close>. The name \<^verbatim>\<open>toml.TomlEncodeError\<close> of \<^verbatim>\<open>write_file\<close> is not
  among them: the \<^verbatim>\<open>toml\<close> package has no such class (see \<open>dump_toml\<close>).
\<close>

datatype exc_class =
    Exception
  | OSError
  | FileNotFoundError
  | PermissionError
  | IsADirectoryError
  | ValueError
  | TypeError
  | YAMLError
  | JSONDecodeError
  | TomlDecodeError
  | AttributeError

fun mro :: "exc_class \<Rightarrow> exc_class list" where
  "mro Exception = [Exception]"
| "mro OSError = [OSError, Exception]"
| "mro FileNotFoundError = [FileNotFoundError, OSError, Exception]"
| "mro PermissionError = [PermissionError, OSError, Exception]"
| "mro IsADirectoryError = [IsADirectoryError, OSError, Exception]"
| "mro ValueError = [ValueError, Exception]"
| "mro TypeError = [TypeError, Exception]"
| "mro YAMLError = [YAMLError, Exception]"
| "mro JSONDecodeError = [JSONDecodeError, ValueError, Exception]"
| "mro TomlDecodeError = [TomlDecodeError, ValueError, Exception]"
| "mro AttributeError = [AttributeError, Exception]"

text \<open>An exception object: its class and \<^verbatim>\<open>str(e)\<close>.\<close>

record exn =
  cls :: exc_class
  msg :: string

definition raise_exc :: "exc_class \<Rightarrow> string \<Rightarrow> exn" where
  "raise_exc c m = \<lparr>cls = c, msg = m\<rparr>"

text \<open>\<^verbatim>\<open>except C\<close> catches \<open>e\<close> when \<^verbatim>\<open>isinstance(e, C)\<close>.\<close>

definition isinstance :: "exn \<Rightarrow> exc_class \<Rightarrow> bool" where
  "isinstance e c = (c \<in> set (mro (cls e)))"

section \<open>Logging\<close>

text \<open>
  \<^verbatim>\<open>logging.basicConfig(level=logging.INFO, ...)\<close>: every record of the program is
  emitted. A record is its level and its message; the time stamp is left out.
\<close>

datatype level = INFO | WARNING | ERROR

type_synonym log_record = "level \<times> string"

section \<open>The file system\<close>

text \<open>
  What \<^verbatim>\<open>open\<close> sees at a path: a regular file with its text and whether this process
  may read and write it, or a directory. \<open>create_error\<close> gives, for a path with no
  entry, the \<^verbatim>\<open>OSError\<close> that creating it raises (a missing parent directory, a
  read-only directory), if any.
\<close>

datatype node = RegularFile string bool bool | Directory

record filesystem =
  nodes :: "string \<rightharpoonup> node"
  create_error :: "string \<rightharpoonup> exn"

definition quoted :: "string \<Rightarrow> string" where
  "quoted p = [CHR 0x27] @ p @ [CHR 0x27]"

text \<open>\<^verbatim>\<open>open(file_path, 'r')\<close>: the text of the file, or the error raised.\<close>

definition open_read :: "filesystem \<Rightarrow> string \<Rightarrow> exn + string" where
  "open_read fs file_path =
     (case nodes fs file_path of
        None \<Rightarrow>
          Inl (raise_exc FileNotFoundError
                 (''[Errno 2] No such file or directory: '' @ quoted file_path))
      | Some Directory \<Rightarrow>
          Inl (raise_exc IsADirectoryError
                 (''[Errno 21] Is a directory: '' @ quoted file_path))
      | Some (RegularFile text r w) \<Rightarrow>
          if r then Inr text
          else Inl (raise_exc PermissionError
                      (''[Errno 13] Permission denied: '' @ quoted file_path)))"

text \<open>
  \<^verbatim>\<open>open(file_path, 'w')\<close>: the file is created or truncated, and the new file system
  is returned; or the error raised, the file system unchanged.
\<close>

definition open_write :: "filesystem \<Rightarrow> string \<Rightarrow> exn + filesystem" where
  "open_write fs file_path =
     (case nodes fs file_path of
        None \<Rightarrow>
          (case create_error fs file_path of
             Some e \<Rightarrow> Inl e
           | None \<Rightarrow>
               Inr (fs\<lparr>nodes := (nodes fs)(file_path \<mapsto> RegularFile [] True True)\<rparr>))
      | Some Directory \<Rightarrow>
          Inl (raise_exc IsADirectoryError
                 (''[Errno 21] Is a directory: '' @ quoted file_path))
      | Some (RegularFile text r w) \<Rightarrow>
          if w then Inr (fs\<lparr>nodes := (nodes fs)(file_path \<mapsto> RegularFile [] r w)\<rparr>)
          else Inl (raise_exc PermissionError
                      (''[Errno 13] Permission denied: '' @ quoted file_path)))"

text \<open>\<^verbatim>\<open>f.write\<close> on the open file: the text replaces what the file holds.\<close>

definition set_text :: "filesystem \<Rightarrow> string \<Rightarrow> string \<Rightarrow> filesystem" where
  "set_text fs file_path text =
     (case nodes fs file_path of
        Some (RegularFile old r w) \<Rightarrow>
          fs\<lparr>nodes := (nodes fs)(file_path \<mapsto> RegularFile text r w)\<rparr>
      | _ \<Rightarrow> fs)"

text \<open>The text of the regular file at a path, if there is one.\<close>

definition text_at :: "filesystem \<Rightarrow> string \<Rightarrow> string option" where
  "text_at fs file_path =
     (case nodes fs file_path of
        Some (RegularFile text r w) \<Rightarrow> Some text
      | _ \<Rightarrow> None)"

section \<open>The parser and serializer libraries\<close>

text \<open>
  PyYAML, \<^verbatim>\<open>json\<close> and \<^verbatim>\<open>toml\<close> are not part of the repository: their entry points are
  parameters. A parser maps the text of the file to a value or to the exception it
  raises. A serializer maps a value to the text it has written to the stream and the
  exception it raised, if any (text written before a failure stays in the file). The
  \<^verbatim>\<open>Loader\<close> of \<^verbatim>\<open>yaml.load\<close> and the \<^verbatim>\<open>indent\<close> of \<^verbatim>\<open>yaml.dump\<close> and \<^verbatim>\<open>json.dump\<close> are
  arguments, as in the source.
\<close>

datatype yaml_loader = BaseLoader | SafeLoader | FullLoader | UnsafeLoader

record libs =
  yaml_load :: "string \<Rightarrow> yaml_loader \<Rightarrow> exn + pyvalue"
  json_load :: "string \<Rightarrow> exn + pyvalue"
  toml_load :: "string \<Rightarrow> exn + pyvalue"
  yaml_dump :: "pyvalue \<Rightarrow> nat \<Rightarrow> string \<times> exn option"
  json_dump :: "pyvalue \<Rightarrow> nat \<Rightarrow> string \<times> exn option"
  toml_dump :: "pyvalue \<Rightarrow> string \<times> exn option"

section \<open>Command line\<close>

text \<open>
  \<^verbatim>\<open>setup_argparse\<close>: two positional paths and two required options, each restricted to
  \<^verbatim>\<open>choices=['yaml', 'json', 'toml']\<close>. \<open>args\<close> is the namespace \<^verbatim>\<open>parse_args\<close> returns;
  \<open>accepted_by_cli\<close> is the validation \<^verbatim>\<open>argparse\<close> applies to the two options before
  \<^verbatim>\<open>main\<close> continues.
\<close>

definition format_choices :: "string list" where
  "format_choices = [''yaml'', ''json'', ''toml'']"

record args =
  input_file :: string
  output_file :: string
  input_format :: string
  output_format :: string

definition accepted_by_cli :: "args \<Rightarrow> bool" where
  "accepted_by_cli a =
     (List.member format_choices (input_format a) \<and>
      List.member format_choices (output_format a))"

section \<open>load_file\<close>

text \<open>
  The three parser calls of \<^verbatim>\<open>load_file\<close>, each inside its own \<^verbatim>\<open>try\<close> that turns the
  error class of its parser into a \<^verbatim>\<open>ValueError\<close> carrying the parser's text. An
  exception of another class leaves the \<^verbatim>\<open>try\<close> as it is.
\<close>

definition load_yaml :: "libs \<Rightarrow> string \<Rightarrow> exn + pyvalue" where
  "load_yaml L f =
     (case yaml_load L f SafeLoader of
        Inr data \<Rightarrow> Inr data
      | Inl e \<Rightarrow>
          if isinstance e YAMLError
          then Inl (raise_exc ValueError (''Error parsing YAML file: '' @ msg e))
          else Inl e)"

definition load_json :: "libs \<Rightarrow> string \<Rightarrow> exn + pyvalue" where
  "load_json L f =
     (case json_load L f of
        Inr data \<Rightarrow> Inr data
      | Inl e \<Rightarrow>
          if isinstance e JSONDecodeError
          then Inl (raise_exc ValueError (''Error parsing JSON file: '' @ msg e))
          else Inl e)"

definition load_toml :: "libs \<Rightarrow> string \<Rightarrow> exn + pyvalue" where
  "load_toml L f =
     (case toml_load L f of
        Inr data \<Rightarrow> Inr data
      | Inl e \<Rightarrow>
          if isinstance e TomlDecodeError
          then Inl (raise_exc ValueError (''Error parsing TOML file: '' @ msg e))
          else Inl e)"

text \<open>
  The body of the \<^verbatim>\<open>with open(file_path, 'r') as f\<close> block: the \<^verbatim>\<open>if\<close>/\<^verbatim>\<open>elif\<close> chain on
  \<^verbatim>\<open>file_format\<close>, with its final \<^verbatim>\<open>else\<close>.
\<close>

definition load_file_body :: "libs \<Rightarrow> string \<Rightarrow> string \<Rightarrow> exn + pyvalue" where
  "load_file_body L f file_format =
     (if file_format = ''yaml'' then load_yaml L f
      else if file_format = ''json'' then load_json L f
      else if file_format = ''toml'' then load_toml L f
      else Inl (raise_exc ValueError (''Unsupported input format: '' @ file_format)))"

text \<open>
  The handlers of the outer \<^verbatim>\<open>try\<close>: \<^verbatim>\<open>except FileNotFoundError\<close> and
  \<^verbatim>\<open>except ValueError\<close> log and re-raise; an exception of any other class passes
  through unlogged.
\<close>

definition load_file_except :: "string \<Rightarrow> exn \<Rightarrow> log_record list" where
  "load_file_except file_path e =
     (if isinstance e FileNotFoundError
      then [(ERROR, ''Input file not found: '' @ file_path)]
      else if isinstance e ValueError then [(ERROR, msg e)]
      else [])"

text \<open>The result is the value returned or the exception raised, with the records logged.\<close>

definition load_file ::
  "libs \<Rightarrow> filesystem \<Rightarrow> string \<Rightarrow> string \<Rightarrow> (exn + pyvalue) \<times> log_record list" where
  "load_file L fs file_path file_format =
     (case (case open_read fs file_path of
              Inl e \<Rightarrow> Inl e
            | Inr f \<Rightarrow> load_file_body L f file_format) of
        Inr data \<Rightarrow> (Inr data, [])
      | Inl e \<Rightarrow> (Inl e, load_file_except file_path e))"

section \<open>write_file\<close>

text \<open>
  The serializer calls of \<^verbatim>\<open>write_file\<close>, each inside its own \<^verbatim>\<open>try\<close>: the text written
  to \<^verbatim>\<open>f\<close> and the exception that leaves the \<^verbatim>\<open>try\<close>, if any.
\<close>

definition dump_yaml :: "libs \<Rightarrow> pyvalue \<Rightarrow> string \<times> exn option" where
  "dump_yaml L data =
     (case yaml_dump L data 2 of
        (text, None) \<Rightarrow> (text, None)
      | (text, Some e) \<Rightarrow>
          if isinstance e YAMLError
          then (text, Some (raise_exc ValueError (''Error writing YAML file: '' @ msg e)))
          else (text, Some e))"

definition dump_json :: "libs \<Rightarrow> pyvalue \<Rightarrow> string \<times> exn option" where
  "dump_json L data =
     (case json_dump L data 2 of
        (text, None) \<Rightarrow> (text, None)
      | (text, Some e) \<Rightarrow>
          if isinstance e TypeError
          then (text, Some (raise_exc ValueError (''Error writing JSON file: '' @ msg e)))
          else (text, Some e))"

text \<open>
  The \<^verbatim>\<open>toml\<close> branch. The \<^verbatim>\<open>toml\<close> package exports \<^verbatim>\<open>load\<close>, \<^verbatim>\<open>loads\<close>, \<^verbatim>\<open>dump\<close>, \<^verbatim>\<open>dumps\<close>,
  \<^verbatim>\<open>TomlDecodeError\<close> and its decoder and encoder classes; it has no attribute
  \<^verbatim>\<open>TomlEncodeError\<close>. Python evaluates the expression of an \<^verbatim>\<open>except\<close> clause when an
  exception reaches it: whenever \<^verbatim>\<open>toml.dump\<close> raises, whatever it raises, the lookup
  \<^verbatim>\<open>toml.TomlEncodeError\<close> raises \<^verbatim>\<open>AttributeError\<close> in its place, and the body of the
  handler (the \<^verbatim>\<open>ValueError\<close> \<^verbatim>\<open>Error writing TOML file: ...\<close>) never runs.
\<close>

definition toml_missing_attribute :: exn where
  "toml_missing_attribute =
     raise_exc AttributeError
       (''module '' @ quoted ''toml'' @ '' has no attribute '' @ quoted ''TomlEncodeError'')"

definition dump_toml :: "libs \<Rightarrow> pyvalue \<Rightarrow> string \<times> exn option" where
  "dump_toml L data =
     (case toml_dump L data of
        (text, None) \<Rightarrow> (text, None)
      | (text, Some e) \<Rightarrow> (text, Some toml_missing_attribute))"

text \<open>The body of the \<^verbatim>\<open>with open(file_path, 'w') as f\<close> block.\<close>

definition write_file_body :: "libs \<Rightarrow> pyvalue \<Rightarrow> string \<Rightarrow> string \<times> exn option" where
  "write_file_body L data file_format =
     (if file_format = ''yaml'' then dump_yaml L data
      else if file_format = ''json'' then dump_json L data
      else if file_format = ''toml'' then dump_toml L data
      else ([], Some (raise_exc ValueError (''Unsupported output format: '' @ file_format))))"

text \<open>
  The handlers of the outer \<^verbatim>\<open>try\<close> of \<^verbatim>\<open>write_file\<close>: \<^verbatim>\<open>except ValueError\<close>, then
  \<^verbatim>\<open>except Exception\<close>; both log and re-raise. Every class of \<open>exc_class\<close> derives from
  \<^verbatim>\<open>Exception\<close>, so the second handler catches whatever the first lets pass and the
  final \<open>else\<close> (no handler applies, nothing is logged) is never reached.
\<close>

definition write_file_except :: "exn \<Rightarrow> log_record list" where
  "write_file_except e =
     (if isinstance e ValueError then [(ERROR, msg e)]
      else if isinstance e Exception
      then [(ERROR, ''An unexpected error occurred: '' @ msg e)]
      else [])"

text \<open>
  The result is the exception raised (\<open>None\<close> when \<^verbatim>\<open>write_file\<close> returns), the file
  system it leaves and the records logged.
\<close>

definition write_file ::
  "libs \<Rightarrow> filesystem \<Rightarrow> pyvalue \<Rightarrow> string \<Rightarrow> string
     \<Rightarrow> exn option \<times> filesystem \<times> log_record list" where
  "write_file L fs data file_path file_format =
     (case open_write fs file_path of
        Inl e \<Rightarrow> (Some e, fs, write_file_except e)
      | Inr fs1 \<Rightarrow>
          (case write_file_body L data file_format of
             (text, None) \<Rightarrow> (None, set_text fs1 file_path text, [])
           | (text, Some e) \<Rightarrow>
               (Some e, set_text fs1 file_path text, write_file_except e)))"

section \<open>main\<close>

text \<open>
  The three handlers of the \<^verbatim>\<open>try\<close> of \<^verbatim>\<open>main\<close>: each ends in \<^verbatim>\<open>sys.exit(1)\<close>, the last
  after logging. The result is the exit status with the records logged. As in
  \<open>write_file_except\<close>, the final \<open>else\<close> is never reached: \<^verbatim>\<open>except Exception\<close> catches
  every exception of the model.
\<close>

definition main_except :: "exn \<Rightarrow> int \<times> log_record list" where
  "main_except e =
     (if isinstance e FileNotFoundError then (1, [])
      else if isinstance e ValueError then (1, [])
      else if isinstance e Exception
      then (1, [(ERROR, ''An unexpected error occurred: '' @ msg e)])
      else (1, []))"

definition success_message :: "args \<Rightarrow> string" where
  "success_message a =
     ''Successfully converted '' @ input_file a @ '' ('' @ input_format a @ '') to '' @
     output_file a @ '' ('' @ output_format a @ '').''"

text \<open>
  The \<^verbatim>\<open>try\<close> statement of \<^verbatim>\<open>main\<close>: the exit status of the process (0 when the
  block runs to its end), the file system it leaves and the records logged, in order.
\<close>

definition main_try :: "libs \<Rightarrow> filesystem \<Rightarrow> args \<Rightarrow> int \<times> filesystem \<times> log_record list" where
  "main_try L fs a =
     (case load_file L fs (input_file a) (input_format a) of
        (Inl e, lg1) \<Rightarrow> (fst (main_except e), fs, lg1 @ snd (main_except e))
      | (Inr data, lg1) \<Rightarrow>
          (case write_file L fs data (output_file a) (output_format a) of
             (Some e, fs', lg2) \<Rightarrow>
               (fst (main_except e), fs', lg1 @ lg2 @ snd (main_except e))
           | (None, fs', lg2) \<Rightarrow>
               (0, fs', lg1 @ lg2 @ [(INFO, success_message a)])))"

text \<open>The comparison of the two format tags before the \<^verbatim>\<open>try\<close>.\<close>

definition same_format_warning :: "args \<Rightarrow> log_record list" where
  "same_format_warning a =
     (if input_format a = output_format a
      then [(WARNING, ''Input and output formats are the same.  No conversion will occur.'')]
      else [])"

text \<open>\<^verbatim>\<open>main\<close>, from the namespace that \<^verbatim>\<open>parse_args\<close> returned.\<close>

definition main :: "libs \<Rightarrow> filesystem \<Rightarrow> args \<Rightarrow> int \<times> filesystem \<times> log_record list" where
  "main L fs a =
     (case main_try L fs a of
        (code, fs', lg) \<Rightarrow> (code, fs', same_format_warning a @ lg))"

definition exit_code :: "int \<times> filesystem \<times> log_record list \<Rightarrow> int" where
  "exit_code r = fst r"

definition final_fs :: "int \<times> filesystem \<times> log_record list \<Rightarrow> filesystem" where
  "final_fs r = fst (snd r)"

definition logged :: "int \<times> filesystem \<times> log_record list \<Rightarrow> log_record list" where
  "logged r = snd (snd r)"

section \<open>What the claims speak of\<close>

text \<open>
  The parser and the serializer that the program calls for a format tag, with the
  arguments the program passes (\<^verbatim>\<open>Loader=SafeLoader\<close>, \<^verbatim>\<open>indent=2\<close>).
\<close>

definition parser_of :: "libs \<Rightarrow> string \<Rightarrow> (string \<Rightarrow> exn + pyvalue) option" where
  "parser_of L file_format =
     (if file_format = ''yaml'' then Some (\<lambda>f. yaml_load L f SafeLoader)
      else if file_format = ''json'' then Some (json_load L)
      else if file_format = ''toml'' then Some (toml_load L)
      else None)"

definition serializer_of :: "libs \<Rightarrow> string \<Rightarrow> (pyvalue \<Rightarrow> string \<times> exn option) option" where
  "serializer_of L file_format =
     (if file_format = ''yaml'' then Some (\<lambda>data. yaml_dump L data 2)
      else if file_format = ''json'' then Some (\<lambda>data. json_dump L data 2)
      else if file_format = ''toml'' then Some (toml_dump L)
      else None)"




text \<open>Loading and writing both succeed.\<close>

definition converted :: "libs \<Rightarrow> filesystem \<Rightarrow> args \<Rightarrow> bool" where
  "converted L fs a =
     (case fst (load_file L fs (input_file a) (input_format a)) of
        Inl e \<Rightarrow> False
      | Inr data \<Rightarrow>
          fst (write_file L fs data (output_file a) (output_format a)) = None)"

text \<open>
  Modelled from the spec: a Generic Value with a scalar or a list at its top level
  succeeds as YAML or JSON (section 8, shape rejection).
\<close>

definition yaml_json_accept :: "libs \<Rightarrow> bool" where
  "yaml_json_accept L =
     (\<forall>data. generic data \<longrightarrow>
        snd (yaml_dump L data 2) = None \<and> snd (json_dump L data 2) = None)"

text \<open>A file that a later \<^verbatim>\<open>open(file_path, 'r')\<close> may read once it is written.\<close>

definition readable_once_written :: "filesystem \<Rightarrow> string \<Rightarrow> bool" where
  "readable_once_written fs file_path =
     (case nodes fs file_path of
        Some (RegularFile text r w) \<Rightarrow> r
      | _ \<Rightarrow> True)"


section \<open>A small library instance\<close>

text \<open>
  An instance of the library interface on which the definitions can be evaluated. It
  records what PyYAML 6.0 (safe loader, default dumper), \<^verbatim>\<open>json\<close> and \<^verbatim>\<open>toml\<close> 0.10 do on
  the few documents used below; on any other text its parsers raise their error class,
  and on any other value its serializers write a literal. An error of the safe loader
  carries the first line of PyYAML's message, without the position.
\<close>

definition nl :: string where
  "nl = [CHR 0x0A]"

definition dq :: string where
  "dq = [CHR 0x22]"

definition constructor_error :: "string \<Rightarrow> exn" where
  "constructor_error tag =
     raise_exc YAMLError (''could not determine a constructor for the tag '' @ quoted tag)"

text \<open>
  The YAML document \<^verbatim>\<open>a: 1\<close> loads to the dict \<^verbatim>\<open>{'a': 1}\<close>, which \<^verbatim>\<open>yaml.dump\<close> and
  \<^verbatim>\<open>json.dump\<close> write as texts that load to the same dict again.
\<close>

definition map_value :: pyvalue where
  "map_value = Mapping [(String ''a'', Integer 1)]"

definition map_yaml_out :: string where
  "map_yaml_out = ''a: 1'' @ nl"

definition map_json_out :: string where
  "map_json_out = ''{'' @ nl @ ''  '' @ dq @ ''a'' @ dq @ '': 1'' @ nl @ ''}''"

text \<open>
  The YAML document \<^verbatim>\<open>1: a\<close> loads to the dict \<^verbatim>\<open>{1: 'a'}\<close>; \<^verbatim>\<open>json.dump\<close> writes its key as
  the string \<^verbatim>\<open>"1"\<close>, and \<^verbatim>\<open>json.load\<close> reads that text as \<^verbatim>\<open>{'1': 'a'}\<close>.
\<close>

definition int_key_value :: pyvalue where
  "int_key_value = Mapping [(Integer 1, String ''a'')]"

definition int_key_json :: string where
  "int_key_json =
     ''{'' @ nl @ ''  '' @ dq @ ''1'' @ dq @ '': '' @ dq @ ''a'' @ dq @ nl @ ''}''"

definition str_key_value :: pyvalue where
  "str_key_value = Mapping [(String ''1'', String ''a'')]"

text \<open>
  The YAML document \<^verbatim>\<open>!!omap [a: 1]\<close> loads to the list \<^verbatim>\<open>[('a', 1)]\<close> of one tuple;
  \<^verbatim>\<open>yaml.dump\<close> writes the tuple under the tag \<^verbatim>\<open>!!python/tuple\<close>, which the safe loader
  rejects.
\<close>

definition omap_value :: pyvalue where
  "omap_value = Sequence [Opaque ''tuple'']"

definition omap_yaml_out :: string where
  "omap_yaml_out = ''- !!python/tuple'' @ nl @ ''  - a'' @ nl @ ''  - 1'' @ nl"

text \<open>
  The TOML document \<^verbatim>\<open>p = {x = 1}\<close> loads to a dict whose value at \<^verbatim>\<open>p\<close> is an instance
  of \<^verbatim>\<open>DynamicInlineTableDict\<close>, the class derived from \<^verbatim>\<open>dict\<close> that the \<^verbatim>\<open>toml\<close> decoder
  makes for an inline table; \<^verbatim>\<open>yaml.dump\<close> writes an instance of a class derived from
  \<^verbatim>\<open>dict\<close> under a \<^verbatim>\<open>!!python/object/new\<close> tag, which the safe loader rejects.
\<close>

definition inline_table_value :: pyvalue where
  "inline_table_value =
     Mapping [(String ''p'', Opaque ''toml.decoder.DynamicInlineTableDict'')]"

definition inline_table_yaml :: string where
  "inline_table_yaml =
     ''p: !!python/object/new:toml.decoder.DynamicInlineTableDict'' @ nl @
     ''  dictitems:'' @ nl @ ''    x: 1'' @ nl"

definition sample_parse :: "exc_class \<Rightarrow> string \<Rightarrow> exn + pyvalue" where
  "sample_parse c f =
     (if f = ''{}'' then Inr (Mapping [])
      else if f = ''[]'' then Inr (Sequence [])
      else if f = ''null'' then Inr Null
      else Inl (raise_exc c ''no value found''))"

definition sample_render :: "pyvalue \<Rightarrow> string" where
  "sample_render data =
     (case data of
        Mapping kvs \<Rightarrow> ''{}''
      | Sequence vs \<Rightarrow> ''[]''
      | _ \<Rightarrow> ''null'')"

text \<open>
  The safe loader: the empty document is \<^verbatim>\<open>None\<close>, a timestamp scalar is a
  \<^verbatim>\<open>datetime.date\<close>, a key may be an integer, and a tag outside the safe schema is a
  \<^verbatim>\<open>ConstructorError\<close>, which is a \<^verbatim>\<open>YAMLError\<close>.
\<close>

definition sample_yaml_load :: "string \<Rightarrow> exn + pyvalue" where
  "sample_yaml_load f =
     (if f = [] then Inr Null
      else if f = ''a: 1'' \<or> f = map_yaml_out then Inr map_value
      else if f = ''2001-12-14'' then Inr (Opaque ''datetime.date'')
      else if f = ''1: a'' then Inr int_key_value
      else if f = ''!!omap [a: 1]'' then Inr omap_value
      else if f = omap_yaml_out
      then Inl (constructor_error ''tag:yaml.org,2002:python/tuple'')
      else if f = inline_table_yaml
      then Inl (constructor_error
             ''tag:yaml.org,2002:python/object/new:toml.decoder.DynamicInlineTableDict'')
      else if f = ''!!python/object/apply:os.system [id]''
      then Inl (constructor_error ''tag:yaml.org,2002:python/object/apply:os.system'')
      else sample_parse YAMLError f)"

text \<open>
  \<^verbatim>\<open>toml.dump\<close> iterates over its argument and indexes it with each item as a key: an
  empty list or an empty string has no item and is written as the empty document; a
  list or a string with an item, a number, a boolean or \<^verbatim>\<open>None\<close> is a \<^verbatim>\<open>TypeError\<close>. A
  mapping is accepted; the instance keeps none of the text written for it.
\<close>

fun sample_toml_dump :: "pyvalue \<Rightarrow> string \<times> exn option" where
  "sample_toml_dump (Mapping kvs) = ([], None)"
| "sample_toml_dump (Sequence []) = ([], None)"
| "sample_toml_dump (String []) = ([], None)"
| "sample_toml_dump (Sequence (v # vs)) =
     ([], Some (raise_exc TypeError ''list indices must be integers or slices, not str''))"
| "sample_toml_dump (String (c # cs)) =
     ([], Some (raise_exc TypeError ''string indices must be integers''))"
| "sample_toml_dump data = ([], Some (raise_exc TypeError ''object is not iterable''))"

definition sample_libs :: libs where
  "sample_libs =
     \<lparr>yaml_load = (\<lambda>f loader. sample_yaml_load f),
      json_load = (\<lambda>f. if f = map_json_out then Inr map_value
                        else if f = int_key_json then Inr str_key_value
                        else sample_parse JSONDecodeError f),
      toml_load = (\<lambda>f. if f = [] then Inr (Mapping [])
                        else if f = ''p = {x = 1}'' then Inr inline_table_value
                        else Inl (raise_exc TomlDecodeError ''invalid document'')),
      yaml_dump = (\<lambda>data indent.
                     (if data = map_value then map_yaml_out
                      else if data = omap_value then omap_yaml_out
                      else if data = inline_table_value then inline_table_yaml
                      else sample_render data, None)),
      json_dump = (\<lambda>data indent.
                     (if data = map_value then map_json_out
                      else if data = int_key_value then int_key_json
                      else sample_render data, None)),
      toml_dump = sample_toml_dump\<rparr>"

definition sample_fs :: filesystem where
  "sample_fs =
     \<lparr>nodes = [''in.yaml'' \<mapsto> RegularFile ''{}'' True True,
               ''empty.yaml'' \<mapsto> RegularFile [] True True,
               ''list.json'' \<mapsto> RegularFile ''[]'' True True,
               ''bad.json'' \<mapsto> RegularFile ''{'' True True,
               ''secret.yaml'' \<mapsto> RegularFile ''{}'' False True,
               ''tagged.yaml'' \<mapsto>
                 RegularFile ''!!python/object/apply:os.system [id]'' True True,
               ''map.yaml'' \<mapsto> RegularFile ''a: 1'' True True,
               ''date.yaml'' \<mapsto> RegularFile ''2001-12-14'' True True,
               ''intkey.yaml'' \<mapsto> RegularFile ''1: a'' True True,
               ''omap.yaml'' \<mapsto> RegularFile ''!!omap [a: 1]'' True True,
               ''inline.toml'' \<mapsto> RegularFile ''p = {x = 1}'' True True,
               ''old.json'' \<mapsto> RegularFile ''stale'' True True],
      create_error = Map.empty\<rparr>"


definition sample_args :: "string \<Rightarrow> string \<Rightarrow> string \<Rightarrow> string \<Rightarrow> args" where
  "sample_args i fi outp fo =
     \<lparr>input_file = i, output_file = outp, input_format = fi, output_format = fo\<rparr>"

section \<open>Shared facts\<close>

lemma isinstance_raise: "isinstance (raise_exc c m) d = (d \<in> set (mro c))"
  by (simp add: isinstance_def raise_exc_def)

lemma msg_raise: "msg (raise_exc c m) = m"
  by (simp add: raise_exc_def)

lemma isinstance_Exception: "isinstance e Exception"
  by (cases "cls e") (simp_all add: isinstance_def)

lemma main_except_code: "fst (main_except e) = 1"
  by (simp add: main_except_def)

lemma exit_code_main_try:
  "exit_code (main_try L fs a) = (if converted L fs a then 0 else 1)"
  by (auto simp: exit_code_def main_try_def converted_def main_except_code
           split: prod.splits sum.splits option.splits)

lemma exit_code_main: "exit_code (main L fs a) = exit_code (main_try L fs a)"
  by (simp add: main_def exit_code_def split: prod.splits)

lemma logged_main:
  "logged (main L fs a) = same_format_warning a @ logged (main_try L fs a)"
  by (simp add: main_def logged_def split: prod.splits)

lemma final_fs_main: "final_fs (main L fs a) = final_fs (main_try L fs a)"
  by (simp add: main_def final_fs_def split: prod.splits)



lemma load_file_missing:
  "nodes fs p = None \<Longrightarrow>
   load_file L fs p fmt =
     (Inl (raise_exc FileNotFoundError (''[Errno 2] No such file or directory: '' @ quoted p)),
      [(ERROR, ''Input file not found: '' @ p)])"
  by (simp add: load_file_def open_read_def load_file_except_def isinstance_raise)



section \<open>Exit status\<close>




section \<open>Reading and writing\<close>

lemma write_file_returns:
  "open_write fs p = Inr fs1 \<Longrightarrow> write_file_body L data fmt = (text, None) \<Longrightarrow>
   write_file L fs data p fmt = (None, set_text fs1 p text, [])"
  by (simp add: write_file_def)

lemma write_file_raises:
  "open_write fs p = Inr fs1 \<Longrightarrow> write_file_body L data fmt = (text, Some e) \<Longrightarrow>
   write_file L fs data p fmt = (Some e, set_text fs1 p text, write_file_except e)"
  by (simp add: write_file_def)

lemma write_file_not_opened:
  "open_write fs p = Inl e \<Longrightarrow> write_file L fs data p fmt = (Some e, fs, write_file_except e)"
  by (simp add: write_file_def)

lemma write_file_except_ValueError:
  "write_file_except (raise_exc ValueError m) = [(ERROR, m)]"
  by (simp add: write_file_except_def isinstance_raise msg_raise)

lemma write_file_except_nonempty: "write_file_except e \<noteq> []"
  by (simp add: write_file_except_def isinstance_Exception)

lemma text_at_written:
  "open_write fs p = Inr fs1 \<Longrightarrow> text_at (set_text fs1 p text) p = Some text"
  by (auto simp: open_write_def set_text_def text_at_def
           split: option.splits node.splits if_splits)

lemma open_read_written:
  "open_write fs p = Inr fs1 \<Longrightarrow> readable_once_written fs p \<Longrightarrow>
   open_read (set_text fs1 p text) p = Inr text"
  by (auto simp: open_write_def set_text_def open_read_def readable_once_written_def
           split: option.splits node.splits if_splits)

lemma dump_yaml_accepted:
  "snd (yaml_dump L data 2) = None \<Longrightarrow> dump_yaml L data = (fst (yaml_dump L data 2), None)"
  by (cases "yaml_dump L data 2") (simp add: dump_yaml_def)

lemma dump_json_accepted:
  "snd (json_dump L data 2) = None \<Longrightarrow> dump_json L data = (fst (json_dump L data 2), None)"
  by (cases "json_dump L data 2") (simp add: dump_json_def)

lemma sample_yaml_json_accept: "yaml_json_accept sample_libs"
  by (simp add: yaml_json_accept_def sample_libs_def)

lemma sample_open_out:
  "nodes sample_fs p = None \<Longrightarrow>
   open_write sample_fs p =
     Inr (sample_fs\<lparr>nodes := (nodes sample_fs)(p \<mapsto> RegularFile [] True True)\<rparr>)"
  by (simp add: open_write_def sample_fs_def)


lemma load_file_body_parser:
  "parser_of L fmt = Some parse \<Longrightarrow> parse f = Inr data \<Longrightarrow>
   load_file_body L f fmt = Inr data"
  by (auto simp: parser_of_def load_file_body_def load_yaml_def load_json_def load_toml_def
           split: if_splits)

lemma write_file_body_serializer:
  "serializer_of L fmt = Some dump \<Longrightarrow> dump data = (out, None) \<Longrightarrow>
   write_file_body L data fmt = (out, None)"
  by (auto simp: serializer_of_def write_file_body_def dump_yaml_def dump_json_def
        dump_toml_def
      split: if_splits)

lemma write_file_body_refusal:
  "serializer_of L fmt = Some dump \<Longrightarrow> dump data = (out, Some e) \<Longrightarrow>
   \<exists>e'. write_file_body L data fmt = (out, Some e')"
  by (auto simp: serializer_of_def write_file_body_def dump_yaml_def dump_json_def
        dump_toml_def
      split: if_splits)

lemma write_file_body_returns:
  "write_file_body L data fmt = (out, None) \<Longrightarrow>
   \<exists>dump. serializer_of L fmt = Some dump \<and> dump data = (out, None)"
  by (auto simp: serializer_of_def write_file_body_def dump_yaml_def dump_json_def
        dump_toml_def
      split: if_splits prod.splits option.splits)

lemma write_file_except_levels: "list_all (\<lambda>r. fst r = ERROR) (write_file_except e)"
  by (simp add: write_file_except_def)

lemma write_file_cases:
  obtains (unopened) e where "open_write fs p = Inl e"
      "write_file L fs data p fmt = (Some e, fs, write_file_except e)"
    | (returned) fs1 out where "open_write fs p = Inr fs1"
      "write_file_body L data fmt = (out, None)"
      "write_file L fs data p fmt = (None, set_text fs1 p out, [])"
    | (raised) fs1 out e where "open_write fs p = Inr fs1"
      "write_file_body L data fmt = (out, Some e)"
      "write_file L fs data p fmt = (Some e, set_text fs1 p out, write_file_except e)"
proof (cases "open_write fs p")
  case (Inl e)
  then show thesis by (intro unopened [of e]) (simp_all add: write_file_not_opened)
next
  case (Inr fs1)
  obtain out r where b: "write_file_body L data fmt = (out, r)"
    by (cases "write_file_body L data fmt")
  show thesis
  proof (cases r)
    case None
    with Inr b show thesis
      by (intro returned [of fs1 out]) (simp_all add: write_file_returns)
  next
    case (Some e)
    with Inr b show thesis
      by (intro raised [of fs1 out e]) (simp_all add: write_file_raises)
  qed
qed

lemma write_file_outcome:
  "case write_file L fs data p fmt of
     (None, fs', lg) \<Rightarrow>
       (\<exists>dump. serializer_of L fmt = Some dump \<and> snd (dump data) = None \<and>
          text_at fs' p = Some (fst (dump data)))
   | (Some e, fs', lg) \<Rightarrow> lg \<noteq> [] \<and> list_all (\<lambda>r. fst r = ERROR) lg"
proof (cases rule: write_file_cases [where fs = fs and p = p and L = L and data = data
      and fmt = fmt])
  case (unopened e)
  then show ?thesis
    by (simp add: write_file_except_nonempty write_file_except_levels)
next
  case (returned fs1 out)
  from returned(2) obtain dump where "serializer_of L fmt = Some dump"
    and "dump data = (out, None)"
    using write_file_body_returns by blast
  with returned show ?thesis by (simp add: text_at_written)
next
  case (raised fs1 out e)
  then show ?thesis
    by (simp add: write_file_except_nonempty write_file_except_levels)
qed

lemma write_file_refusal:
  assumes "serializer_of L fmt = Some dump" and "snd (dump data) = Some e"
  shows "fst (write_file L fs data p fmt) \<noteq> None"
proof -
  from assms(2) have "dump data = (fst (dump data), Some e)"
    by (cases "dump data") simp
  with assms(1) obtain e' where b: "write_file_body L data fmt = (fst (dump data), Some e')"
    using write_file_body_refusal by blast
  show ?thesis
    by (cases rule: write_file_cases [where fs = fs and p = p and L = L and data = data
          and fmt = fmt])
      (use b in auto)
qed

text \<open>What is loaded is what the parser returned; what is written is read again.\<close>

lemma load_yaml_value_iff: "(load_yaml L f = Inr v) = (yaml_load L f SafeLoader = Inr v)"
  by (cases "yaml_load L f SafeLoader") (simp_all add: load_yaml_def)

lemma load_json_value_iff: "(load_json L f = Inr v) = (json_load L f = Inr v)"
  by (cases "json_load L f") (simp_all add: load_json_def)

lemma load_toml_value_iff: "(load_toml L f = Inr v) = (toml_load L f = Inr v)"
  by (cases "toml_load L f") (simp_all add: load_toml_def)

lemma load_file_body_value_iff:
  "parser_of L t = Some parse \<Longrightarrow> (load_file_body L f t = Inr v) = (parse f = Inr v)"
  by (auto simp: parser_of_def load_file_body_def load_yaml_value_iff load_json_value_iff
        load_toml_value_iff
      split: if_splits)


lemma load_file_value_iff:
  "open_read fs p = Inr f \<Longrightarrow>
   (fst (load_file L fs p t) = Inr v) = (load_file_body L f t = Inr v)"
  by (cases "load_file_body L f t") (simp_all add: load_file_def)

lemma reload_written:
  assumes dump: "serializer_of L target = Some dump"
      and parse: "parser_of L target = Some parse"
      and accepted: "snd (dump data) = None"
      and opened: "open_write fs output_path = Inr fs1"
      and readable: "readable_once_written fs output_path"
  shows "write_file L fs data output_path target =
           (None, set_text fs1 output_path (fst (dump data)), []) \<and>
         text_at (set_text fs1 output_path (fst (dump data))) output_path =
           Some (fst (dump data)) \<and>
         (\<forall>v. (fst (load_file L (set_text fs1 output_path (fst (dump data)))
                      output_path target) = Inr v) =
              (parse (fst (dump data)) = Inr v))"
proof -
  from accepted have "dump data = (fst (dump data), None)"
    by (cases "dump data") simp
  with dump have b: "write_file_body L data target = (fst (dump data), None)"
    by (rule write_file_body_serializer)
  have w: "write_file L fs data output_path target =
      (None, set_text fs1 output_path (fst (dump data)), [])"
    using opened b by (rule write_file_returns)
  have t: "text_at (set_text fs1 output_path (fst (dump data))) output_path =
      Some (fst (dump data))"
    using opened by (rule text_at_written)
  have r: "open_read (set_text fs1 output_path (fst (dump data))) output_path =
      Inr (fst (dump data))"
    using opened readable by (rule open_read_written)
  have "\<forall>v. (fst (load_file L (set_text fs1 output_path (fst (dump data)))
                      output_path target) = Inr v) =
              (parse (fst (dump data)) = Inr v)"
    by (simp add: load_file_value_iff [OF r] load_file_body_value_iff [OF parse])
  with w t show ?thesis by blast
qed

section \<open>An input file that may not be read\<close>

lemma open_read_unreadable:
  "nodes fs p = Some (RegularFile content False w) \<Longrightarrow>
   open_read fs p =
     Inl (raise_exc PermissionError (''[Errno 13] Permission denied: '' @ quoted p))"
  by (simp add: open_read_def)

lemma load_file_unreadable:
  "nodes fs p = Some (RegularFile content False w) \<Longrightarrow>
   load_file L fs p fmt =
     (Inl (raise_exc PermissionError (''[Errno 13] Permission denied: '' @ quoted p)), [])"
  by (simp add: load_file_def open_read_unreadable load_file_except_def isinstance_raise)

lemma main_load_raises:
  "load_file L fs (input_file a) (input_format a) = (Inl e, lg) \<Longrightarrow>
   main L fs a =
     (fst (main_except e), fs, same_format_warning a @ lg @ snd (main_except e))"
  by (simp add: main_def main_try_def)

lemma main_except_PermissionError:
  "main_except (raise_exc PermissionError m) =
     (1, [(ERROR, ''An unexpected error occurred: '' @ m)])"
  by (simp add: main_except_def isinstance_raise msg_raise)

text \<open>
  Claim C6, as the spec states it, fails: for a file that exists and may not be read,
  \<^verbatim>\<open>load_file\<close> raises \<^verbatim>\<open>PermissionError\<close>, which is not a \<^verbatim>\<open>FileNotFoundError\<close>, and logs
  nothing; for a path with no entry it raises \<^verbatim>\<open>FileNotFoundError\<close> and logs the
  not-found record.
\<close>

theorem unreadable_not_found_counterexample:
  "nodes sample_fs ''secret.yaml'' = Some (RegularFile ''{}'' False True) \<and>
   load_file sample_libs sample_fs ''secret.yaml'' ''yaml'' =
     (Inl (raise_exc PermissionError
             (''[Errno 13] Permission denied: '' @ quoted ''secret.yaml'')), []) \<and>
   \<not> isinstance (raise_exc PermissionError
                   (''[Errno 13] Permission denied: '' @ quoted ''secret.yaml''))
        FileNotFoundError \<and>
   nodes sample_fs ''nope.yaml'' = None \<and>
   load_file sample_libs sample_fs ''nope.yaml'' ''yaml'' =
     (Inl (raise_exc FileNotFoundError
             (''[Errno 2] No such file or directory: '' @ quoted ''nope.yaml'')),
      [(ERROR, ''Input file not found: nope.yaml'')]) \<and>
   isinstance (raise_exc FileNotFoundError
                 (''[Errno 2] No such file or directory: '' @ quoted ''nope.yaml''))
     FileNotFoundError"
proof -
  have s: "nodes sample_fs ''secret.yaml'' = Some (RegularFile ''{}'' False True)"
    by (simp add: sample_fs_def)
  have n: "nodes sample_fs ''nope.yaml'' = None" by (simp add: sample_fs_def)
  have "load_file sample_libs sample_fs ''nope.yaml'' ''yaml'' =
     (Inl (raise_exc FileNotFoundError
             (''[Errno 2] No such file or directory: '' @ quoted ''nope.yaml'')),
      [(ERROR, ''Input file not found: '' @ ''nope.yaml'')])"
    using n by (rule load_file_missing)
  then have m: "load_file sample_libs sample_fs ''nope.yaml'' ''yaml'' =
     (Inl (raise_exc FileNotFoundError
             (''[Errno 2] No such file or directory: '' @ quoted ''nope.yaml'')),
      [(ERROR, ''Input file not found: nope.yaml'')])"
    by simp
  show ?thesis
    using s n m load_file_unreadable [OF s, of sample_libs "''yaml''"]
    by (simp add: isinstance_raise)
qed

text \<open>
  Claim C6, amended. For every input path that names a regular file this process may not
  read, \<^verbatim>\<open>load_file\<close> raises \<^verbatim>\<open>PermissionError\<close> (an \<^verbatim>\<open>OSError\<close> that is not a
  \<^verbatim>\<open>FileNotFoundError\<close>) and logs nothing itself; \<^verbatim>\<open>main\<close> then logs
  \<^verbatim>\<open>ERROR An unexpected error occurred: ...\<close> and exits with status 1, the file system
  untouched. The not-found error is raised for a path with no entry only.
\<close>

theorem unreadable_input_raises_permission_error:
  assumes "nodes fs (input_file a) = Some (RegularFile content False w)"
  shows "load_file L fs (input_file a) (input_format a) =
           (Inl (raise_exc PermissionError
                   (''[Errno 13] Permission denied: '' @ quoted (input_file a))), []) \<and>
         \<not> isinstance (raise_exc PermissionError
                         (''[Errno 13] Permission denied: '' @ quoted (input_file a)))
              FileNotFoundError \<and>
         main L fs a =
           (1, fs, same_format_warning a @
              [(ERROR, ''An unexpected error occurred: '' @
                  ''[Errno 13] Permission denied: '' @ quoted (input_file a))])"
proof -
  note l = load_file_unreadable [OF assms, of L "input_format a"]
  have "main L fs a =
      (fst (main_except (raise_exc PermissionError
              (''[Errno 13] Permission denied: '' @ quoted (input_file a)))), fs,
       same_format_warning a @ [] @
       snd (main_except (raise_exc PermissionError
              (''[Errno 13] Permission denied: '' @ quoted (input_file a)))))"
    using l by (rule main_load_raises)
  then have "main L fs a =
           (1, fs, same_format_warning a @
              [(ERROR, ''An unexpected error occurred: '' @
                  ''[Errno 13] Permission denied: '' @ quoted (input_file a))])"
    by (simp only: main_except_PermissionError fst_conv snd_conv append.simps)
  with l show ?thesis by (simp add: isinstance_raise)
qed

theorem unreadable_input_raises_permission_error_witness:
  "nodes sample_fs (input_file (sample_args ''secret.yaml'' ''yaml'' ''out.json'' ''json'')) =
     Some (RegularFile ''{}'' False True) \<and>
   exit_code (main sample_libs sample_fs
                (sample_args ''secret.yaml'' ''yaml'' ''out.json'' ''json'')) = 1 \<and>
   final_fs (main sample_libs sample_fs
               (sample_args ''secret.yaml'' ''yaml'' ''out.json'' ''json'')) = sample_fs \<and>
   fst (load_file sample_libs sample_fs ''secret.yaml'' ''yaml'') =
     Inl (raise_exc PermissionError
            (''[Errno 13] Permission denied: '' @ quoted ''secret.yaml''))"
proof -
  let ?a = "sample_args ''secret.yaml'' ''yaml'' ''out.json'' ''json''"
  have sel: "input_file ?a = ''secret.yaml''" "input_format ?a = ''yaml''"
    by (simp_all add: sample_args_def)
  have s: "nodes sample_fs (input_file ?a) = Some (RegularFile ''{}'' False True)"
    by (simp add: sel sample_fs_def)
  note T = unreadable_input_raises_permission_error [OF s, of sample_libs]
  from T have "exit_code (main sample_libs sample_fs ?a) = 1"
    and "final_fs (main sample_libs sample_fs ?a) = sample_fs"
    by (simp_all add: exit_code_def final_fs_def)
  moreover from T have "fst (load_file sample_libs sample_fs ''secret.yaml'' ''yaml'') =
     Inl (raise_exc PermissionError
            (''[Errno 13] Permission denied: '' @ quoted ''secret.yaml''))"
    by (simp add: sel)
  ultimately show ?thesis using s by blast
qed

section \<open>Format tags outside the closed set\<close>

lemma member_format_choices:
  "(t \<in> set format_choices) = (t = ''yaml'' \<or> t = ''json'' \<or> t = ''toml'')"
  by (auto simp: format_choices_def)

lemma load_file_body_unsupported:
  "t \<notin> set format_choices \<Longrightarrow>
   load_file_body L f t = Inl (raise_exc ValueError (''Unsupported input format: '' @ t))"
  by (simp add: member_format_choices load_file_body_def)

lemma write_file_body_unsupported:
  "t \<notin> set format_choices \<Longrightarrow>
   write_file_body L data t =
     ([], Some (raise_exc ValueError (''Unsupported output format: '' @ t)))"
  by (simp add: member_format_choices write_file_body_def)

lemma load_file_raises:
  "open_read fs p = Inr f \<Longrightarrow> load_file_body L f t = Inl e \<Longrightarrow>
   load_file L fs p t = (Inl e, load_file_except p e)"
  by (simp add: load_file_def)

lemma load_file_except_ValueError:
  "load_file_except p (raise_exc ValueError m) = [(ERROR, m)]"
  by (simp add: load_file_except_def isinstance_raise msg_raise)

lemma load_file_unsupported:
  assumes "t \<notin> set format_choices" and "open_read fs p = Inr f"
  shows "load_file L fs p t =
     (Inl (raise_exc ValueError (''Unsupported input format: '' @ t)),
      [(ERROR, ''Unsupported input format: '' @ t)])"
  using load_file_raises [OF assms(2) load_file_body_unsupported [OF assms(1)], of L]
  by (simp only: load_file_except_ValueError)

lemma write_file_unsupported:
  assumes "t \<notin> set format_choices" and "open_write fs p = Inr fs1"
  shows "write_file L fs data p t =
     (Some (raise_exc ValueError (''Unsupported output format: '' @ t)),
      set_text fs1 p [],
      [(ERROR, ''Unsupported output format: '' @ t)])"
  using write_file_raises [OF assms(2) write_file_body_unsupported [OF assms(1)]]
  by (simp only: write_file_except_ValueError)

lemma load_file_body_supported:
  "t \<in> set format_choices \<Longrightarrow>
   load_file_body L f t =
     (if t = ''yaml'' then load_yaml L f
      else if t = ''json'' then load_json L f
      else load_toml L f)"
  by (auto simp: member_format_choices load_file_body_def)

lemma write_file_body_supported:
  "t \<in> set format_choices \<Longrightarrow>
   write_file_body L data t =
     (if t = ''yaml'' then dump_yaml L data
      else if t = ''json'' then dump_json L data
      else dump_toml L data)"
  by (auto simp: member_format_choices write_file_body_def)

text \<open>
  Claim C7. For every format tag outside \<^verbatim>\<open>yaml\<close>, \<^verbatim>\<open>json\<close>, \<^verbatim>\<open>toml\<close>: when the input file
  opens, \<^verbatim>\<open>load_file\<close> raises the \<^verbatim>\<open>ValueError\<close> \<^verbatim>\<open>Unsupported input format: <tag>\<close> and
  logs it at ERROR; when the output file opens, \<^verbatim>\<open>write_file\<close> raises the \<^verbatim>\<open>ValueError\<close>
  \<^verbatim>\<open>Unsupported output format: <tag>\<close>, logs it at ERROR and leaves the file empty. For
  arguments that passed the \<^verbatim>\<open>choices\<close> validation of the command line, the final
  \<^verbatim>\<open>else\<close> of either chain is never taken: the body of \<^verbatim>\<open>load_file\<close> is the parser branch
  of the input tag and the body of \<^verbatim>\<open>write_file\<close> is the serializer branch of the output
  tag.
\<close>

theorem unsupported_format_rejected:
  "(t \<notin> set format_choices \<longrightarrow>
      (\<forall>f. open_read fs file_path = Inr f \<longrightarrow>
         load_file L fs file_path t =
           (Inl (raise_exc ValueError (''Unsupported input format: '' @ t)),
            [(ERROR, ''Unsupported input format: '' @ t)])) \<and>
      (\<forall>fs1. open_write fs file_path = Inr fs1 \<longrightarrow>
         write_file L fs data file_path t =
           (Some (raise_exc ValueError (''Unsupported output format: '' @ t)),
            set_text fs1 file_path [],
            [(ERROR, ''Unsupported output format: '' @ t)]))) \<and>
   (accepted_by_cli a \<longrightarrow>
      load_file_body L f' (input_format a) =
        (if input_format a = ''yaml'' then load_yaml L f'
         else if input_format a = ''json'' then load_json L f'
         else load_toml L f') \<and>
      write_file_body L data (output_format a) =
        (if output_format a = ''yaml'' then dump_yaml L data
         else if output_format a = ''json'' then dump_json L data
         else dump_toml L data))"
proof (intro conjI impI allI)
  fix f assume "t \<notin> set format_choices" "open_read fs file_path = Inr f"
  then show "load_file L fs file_path t =
           (Inl (raise_exc ValueError (''Unsupported input format: '' @ t)),
            [(ERROR, ''Unsupported input format: '' @ t)])"
    by (rule load_file_unsupported)
next
  fix fs1 assume "t \<notin> set format_choices" "open_write fs file_path = Inr fs1"
  then show "write_file L fs data file_path t =
           (Some (raise_exc ValueError (''Unsupported output format: '' @ t)),
            set_text fs1 file_path [],
            [(ERROR, ''Unsupported output format: '' @ t)])"
    by (rule write_file_unsupported)
next
  assume "accepted_by_cli a"
  then have "input_format a \<in> set format_choices"
    by (simp add: accepted_by_cli_def)
  then show "load_file_body L f' (input_format a) =
        (if input_format a = ''yaml'' then load_yaml L f'
         else if input_format a = ''json'' then load_json L f'
         else load_toml L f')"
    by (rule load_file_body_supported)
next
  assume "accepted_by_cli a"
  then have "output_format a \<in> set format_choices"
    by (simp add: accepted_by_cli_def)
  then show "write_file_body L data (output_format a) =
        (if output_format a = ''yaml'' then dump_yaml L data
         else if output_format a = ''json'' then dump_json L data
         else dump_toml L data)"
    by (rule write_file_body_supported)
qed


theorem unsupported_format_rejected_witness:
  "''xml'' \<notin> set format_choices \<and>
   open_read sample_fs ''in.yaml'' = Inr ''{}'' \<and>
   load_file sample_libs sample_fs ''in.yaml'' ''xml'' =
     (Inl (raise_exc ValueError ''Unsupported input format: xml''),
      [(ERROR, ''Unsupported input format: xml'')]) \<and>
   open_write sample_fs ''out.xml'' =
     Inr (sample_fs\<lparr>nodes := (nodes sample_fs)(''out.xml'' \<mapsto> RegularFile [] True True)\<rparr>) \<and>
   fst (write_file sample_libs sample_fs Null ''out.xml'' ''xml'') =
     Some (raise_exc ValueError ''Unsupported output format: xml'') \<and>
   accepted_by_cli (sample_args ''in.yaml'' ''yaml'' ''out.json'' ''json'') \<and>
   load_file_body sample_libs ''{}'' ''yaml'' = load_yaml sample_libs ''{}'' \<and>
   write_file_body sample_libs Null ''json'' = dump_json sample_libs Null"
proof -
  let ?a = "sample_args ''in.yaml'' ''yaml'' ''out.json'' ''json''"
  let ?fs1 = "sample_fs\<lparr>nodes := (nodes sample_fs)(''out.xml'' \<mapsto> RegularFile [] True True)\<rparr>"
  have x: "''xml'' \<notin> set format_choices" by code_simp
  have r: "open_read sample_fs ''in.yaml'' = Inr ''{}''" by code_simp
  have o: "open_write sample_fs ''out.xml'' = Inr ?fs1"
    by (rule sample_open_out) (simp add: sample_fs_def)
  have c: "accepted_by_cli ?a" by code_simp
  have sel: "input_format ?a = ''yaml''" "output_format ?a = ''json''"
    by (simp_all add: sample_args_def)
  note T = unsupported_format_rejected
    [where t = "''xml''" and fs = sample_fs and file_path = "''in.yaml''"
       and L = sample_libs]
  note U = unsupported_format_rejected
    [where t = "''xml''" and fs = sample_fs and file_path = "''out.xml''"
       and L = sample_libs and data = Null]
  note V = unsupported_format_rejected
    [where a = ?a and L = sample_libs and data = Null and f' = "''{}''"]
  from T [THEN conjunct1, THEN mp, OF x, THEN conjunct1, rule_format, OF r]
  have l: "load_file sample_libs sample_fs ''in.yaml'' ''xml'' =
     (Inl (raise_exc ValueError ''Unsupported input format: xml''),
      [(ERROR, ''Unsupported input format: xml'')])"
    by simp
  from U [THEN conjunct1, THEN mp, OF x, THEN conjunct2, rule_format, OF o]
  have w: "fst (write_file sample_libs sample_fs Null ''out.xml'' ''xml'') =
     Some (raise_exc ValueError ''Unsupported output format: xml'')"
    by simp
  from V [THEN conjunct2, THEN mp, OF c]
  have b: "load_file_body sample_libs ''{}'' ''yaml'' = load_yaml sample_libs ''{}'' \<and>
      write_file_body sample_libs Null ''json'' = dump_json sample_libs Null"
    by (simp add: sel)
  from x r l o w c b show ?thesis by blast
qed

section \<open>An empty YAML file\<close>


lemma load_file_body_yaml: "load_file_body L f ''yaml'' = load_yaml L f"
  by (simp add: load_file_body_def)

lemma load_yaml_returns:
  "yaml_load L f SafeLoader = Inr data \<Longrightarrow> load_yaml L f = Inr data"
  by (simp add: load_yaml_def)

lemma load_yaml_rejects:
  "yaml_load L f SafeLoader = Inl e \<Longrightarrow> isinstance e YAMLError \<Longrightarrow>
   load_yaml L f = Inl (raise_exc ValueError (''Error parsing YAML file: '' @ msg e))"
  by (simp add: load_yaml_def)

lemma load_yaml_value:
  "load_yaml L f = Inr data \<Longrightarrow> yaml_load L f SafeLoader = Inr data"
  by (auto simp: load_yaml_def split: sum.splits if_splits)




section \<open>Determinism\<close>








section \<open>TOML output of a root that is no table\<close>

lemma write_file_body_toml: "write_file_body L data ''toml'' = dump_toml L data"
  by (simp add: write_file_body_def)

lemma dump_toml_accepted:
  "snd (toml_dump L data) = None \<Longrightarrow> dump_toml L data = (fst (toml_dump L data), None)"
  by (cases "toml_dump L data") (simp add: dump_toml_def)

lemma dump_toml_raised:
  "snd (toml_dump L data) \<noteq> None \<Longrightarrow>
   dump_toml L data = (fst (toml_dump L data), Some toml_missing_attribute)"
  by (cases "toml_dump L data") (auto simp: dump_toml_def)

lemma write_file_yaml_accepted:
  assumes "snd (yaml_dump L data 2) = None" and "open_write fs p = Inr fs1"
  shows "write_file L fs data p ''yaml'' = (None, set_text fs1 p (fst (yaml_dump L data 2)), [])"
proof -
  from assms(1) have "write_file_body L data ''yaml'' = (fst (yaml_dump L data 2), None)"
    by (simp add: write_file_body_def dump_yaml_accepted)
  with assms(2) show ?thesis by (rule write_file_returns)
qed

lemma write_file_json_accepted:
  assumes "snd (json_dump L data 2) = None" and "open_write fs p = Inr fs1"
  shows "write_file L fs data p ''json'' = (None, set_text fs1 p (fst (json_dump L data 2)), [])"
proof -
  from assms(1) have "write_file_body L data ''json'' = (fst (json_dump L data 2), None)"
    by (simp add: write_file_body_def dump_json_accepted)
  with assms(2) show ?thesis by (rule write_file_returns)
qed

text \<open>
  Claim C2, as the spec states it, fails on both counts. The empty list is a list root,
  and \<^verbatim>\<open>toml.dump\<close> writes it as the empty document: \<^verbatim>\<open>write_file\<close> returns and logs
  nothing. For a list with items \<^verbatim>\<open>toml.dump\<close> raises \<^verbatim>\<open>TypeError\<close>; the clause
  \<^verbatim>\<open>except toml.TomlEncodeError\<close> then raises \<^verbatim>\<open>AttributeError\<close>, which is no \<^verbatim>\<open>ValueError\<close>
  and is logged as an unexpected error: the \<^verbatim>\<open>ValueError\<close> \<^verbatim>\<open>Error writing TOML file\<close> is
  not raised.
\<close>

theorem toml_root_shape_counterexample:
  "generic (Sequence []) \<and> \<not> is_mapping (Sequence []) \<and>
   fst (write_file sample_libs sample_fs (Sequence []) ''out.toml'' ''toml'') = None \<and>
   snd (snd (write_file sample_libs sample_fs (Sequence []) ''out.toml'' ''toml'')) = [] \<and>
   generic (Sequence [Integer 1, Integer 2]) \<and>
   \<not> is_mapping (Sequence [Integer 1, Integer 2]) \<and>
   toml_dump sample_libs (Sequence [Integer 1, Integer 2]) =
     ([], Some (raise_exc TypeError ''list indices must be integers or slices, not str'')) \<and>
   fst (write_file sample_libs sample_fs (Sequence [Integer 1, Integer 2])
          ''out.toml'' ''toml'') = Some toml_missing_attribute \<and>
   cls toml_missing_attribute = AttributeError \<and>
   \<not> isinstance toml_missing_attribute ValueError \<and>
   snd (snd (write_file sample_libs sample_fs (Sequence [Integer 1, Integer 2])
               ''out.toml'' ''toml'')) =
     [(ERROR, ''An unexpected error occurred: '' @ msg toml_missing_attribute)]"
proof -
  let ?fs1 = "sample_fs\<lparr>nodes := (nodes sample_fs)(''out.toml'' \<mapsto> RegularFile [] True True)\<rparr>"
  have o: "open_write sample_fs ''out.toml'' = Inr ?fs1"
    by (rule sample_open_out) (simp add: sample_fs_def)
  have d0: "snd (toml_dump sample_libs (Sequence [])) = None"
    by (simp add: sample_libs_def)
  have d2: "toml_dump sample_libs (Sequence [Integer 1, Integer 2]) =
      ([], Some (raise_exc TypeError ''list indices must be integers or slices, not str''))"
    by (simp add: sample_libs_def)
  have b0: "write_file_body sample_libs (Sequence []) ''toml'' =
      (fst (toml_dump sample_libs (Sequence [])), None)"
    using d0 by (simp add: write_file_body_toml dump_toml_accepted)
  have b2: "write_file_body sample_libs (Sequence [Integer 1, Integer 2]) ''toml'' =
      ([], Some toml_missing_attribute)"
    using d2 by (simp add: write_file_body_toml dump_toml_def)
  have c: "cls toml_missing_attribute = AttributeError"
    and v: "\<not> isinstance toml_missing_attribute ValueError"
    by (simp_all add: toml_missing_attribute_def isinstance_def raise_exc_def)
  have x: "write_file_except toml_missing_attribute =
      [(ERROR, ''An unexpected error occurred: '' @ msg toml_missing_attribute)]"
    using v by (simp add: write_file_except_def isinstance_Exception)
  have w0: "fst (write_file sample_libs sample_fs (Sequence []) ''out.toml'' ''toml'') = None"
    and l0: "snd (snd (write_file sample_libs sample_fs (Sequence []) ''out.toml'' ''toml'')) = []"
    using write_file_returns [OF o b0] by simp_all
  have w2: "fst (write_file sample_libs sample_fs (Sequence [Integer 1, Integer 2])
          ''out.toml'' ''toml'') = Some toml_missing_attribute"
    and l2: "snd (snd (write_file sample_libs sample_fs (Sequence [Integer 1, Integer 2])
               ''out.toml'' ''toml'')) =
     [(ERROR, ''An unexpected error occurred: '' @ msg toml_missing_attribute)]"
    using write_file_raises [OF o b2] x by simp_all
  have g: "generic (Sequence [])" "\<not> is_mapping (Sequence [])"
    "generic (Sequence [Integer 1, Integer 2])" "\<not> is_mapping (Sequence [Integer 1, Integer 2])"
    by simp_all
  from g w0 l0 d2 w2 c v l2 show ?thesis by blast
qed

text \<open>
  Claim C2, amended. Let the value be a Generic Value whose top level is a bare scalar
  or a list, and let the output path open for writing. With target \<^verbatim>\<open>yaml\<close> or \<^verbatim>\<open>json\<close>,
  whose serializers accept every Generic Value, \<^verbatim>\<open>write_file\<close> returns and the file holds
  the serializer's text. With target \<^verbatim>\<open>toml\<close>, \<^verbatim>\<open>write_file\<close> fails whenever \<^verbatim>\<open>toml.dump\<close>
  raises on the value: it raises and has logged at level ERROR; and when \<^verbatim>\<open>toml.dump\<close>
  accepts the value, as it does the empty list, \<^verbatim>\<open>write_file\<close> returns with the text
  \<^verbatim>\<open>toml.dump\<close> wrote in the file.
\<close>

theorem toml_refusal_fails_write:
  assumes opened: "open_write fs file_path = Inr fs1"
      and gen: "generic data"
      and shape: "\<not> is_mapping data"
  shows "(yaml_json_accept L \<longrightarrow>
            write_file L fs data file_path ''yaml'' =
              (None, set_text fs1 file_path (fst (yaml_dump L data 2)), []) \<and>
            write_file L fs data file_path ''json'' =
              (None, set_text fs1 file_path (fst (json_dump L data 2)), [])) \<and>
         (snd (toml_dump L data) \<noteq> None \<longrightarrow>
            fst (write_file L fs data file_path ''toml'') \<noteq> None \<and>
            snd (snd (write_file L fs data file_path ''toml'')) \<noteq> [] \<and>
            list_all (\<lambda>r. fst r = ERROR)
              (snd (snd (write_file L fs data file_path ''toml'')))) \<and>
         (snd (toml_dump L data) = None \<longrightarrow>
            write_file L fs data file_path ''toml'' =
              (None, set_text fs1 file_path (fst (toml_dump L data)), []))"
proof (intro conjI impI)
  assume a: "yaml_json_accept L"
  with gen have y: "snd (yaml_dump L data 2) = None" and j: "snd (json_dump L data 2) = None"
    unfolding yaml_json_accept_def by blast+
  from y opened show "write_file L fs data file_path ''yaml'' =
      (None, set_text fs1 file_path (fst (yaml_dump L data 2)), [])"
    by (rule write_file_yaml_accepted)
  from j opened show "write_file L fs data file_path ''json'' =
      (None, set_text fs1 file_path (fst (json_dump L data 2)), [])"
    by (rule write_file_json_accepted)
next
  assume r: "snd (toml_dump L data) \<noteq> None"
  then have b: "write_file_body L data ''toml'' =
      (fst (toml_dump L data), Some toml_missing_attribute)"
    by (simp add: write_file_body_toml dump_toml_raised)
  note w = write_file_raises [OF opened b]
  from w show "fst (write_file L fs data file_path ''toml'') \<noteq> None" by simp
  from w show "snd (snd (write_file L fs data file_path ''toml'')) \<noteq> []"
    by (simp add: write_file_except_nonempty)
  from w show "list_all (\<lambda>r. fst r = ERROR)
      (snd (snd (write_file L fs data file_path ''toml'')))"
    by (simp add: write_file_except_levels)
next
  assume "snd (toml_dump L data) = None"
  then have "write_file_body L data ''toml'' = (fst (toml_dump L data), None)"
    by (simp add: write_file_body_toml dump_toml_accepted)
  with opened show "write_file L fs data file_path ''toml'' =
      (None, set_text fs1 file_path (fst (toml_dump L data)), [])"
    by (rule write_file_returns)
qed

theorem toml_refusal_fails_write_witness:
  "open_write sample_fs ''out.toml'' =
     Inr (sample_fs\<lparr>nodes := (nodes sample_fs)(''out.toml'' \<mapsto> RegularFile [] True True)\<rparr>) \<and>
   generic (Sequence [Integer 1, Integer 2]) \<and>
   \<not> is_mapping (Sequence [Integer 1, Integer 2]) \<and>
   yaml_json_accept sample_libs \<and>
   snd (toml_dump sample_libs (Sequence [Integer 1, Integer 2])) \<noteq> None \<and>
   fst (write_file sample_libs sample_fs (Sequence [Integer 1, Integer 2])
          ''out.toml'' ''yaml'') = None \<and>
   fst (write_file sample_libs sample_fs (Sequence [Integer 1, Integer 2])
          ''out.toml'' ''json'') = None \<and>
   fst (write_file sample_libs sample_fs (Sequence [Integer 1, Integer 2])
          ''out.toml'' ''toml'') \<noteq> None \<and>
   snd (snd (write_file sample_libs sample_fs (Sequence [Integer 1, Integer 2])
               ''out.toml'' ''toml'')) \<noteq> []"
proof -
  let ?fs1 = "sample_fs\<lparr>nodes := (nodes sample_fs)(''out.toml'' \<mapsto> RegularFile [] True True)\<rparr>"
  let ?v = "Sequence [Integer 1, Integer 2]"
  have o: "open_write sample_fs ''out.toml'' = Inr ?fs1"
    by (rule sample_open_out) (simp add: sample_fs_def)
  have g: "generic ?v" and n: "\<not> is_mapping ?v" by simp_all
  have r: "snd (toml_dump sample_libs ?v) \<noteq> None" by (simp add: sample_libs_def)
  note T = toml_refusal_fails_write [OF o g n, of sample_libs]
  from T [THEN conjunct1, THEN mp, OF sample_yaml_json_accept]
  have y: "fst (write_file sample_libs sample_fs ?v ''out.toml'' ''yaml'') = None"
    and j: "fst (write_file sample_libs sample_fs ?v ''out.toml'' ''json'') = None"
    by simp_all
  from T [THEN conjunct2, THEN conjunct1, THEN mp, OF r]
  have t: "fst (write_file sample_libs sample_fs ?v ''out.toml'' ''toml'') \<noteq> None"
    and l: "snd (snd (write_file sample_libs sample_fs ?v ''out.toml'' ''toml'')) \<noteq> []"
    by simp_all
  from o g n sample_yaml_json_accept r y j t l show ?thesis by blast
qed

section \<open>The writer takes the loaded tree as it is\<close>

text \<open>
  Claim C4, as the spec states it, fails. The YAML document \<^verbatim>\<open>1: a\<close> loads to a dict with
  an integer key, which JSON cannot represent: the keys of a JSON object are strings.
  \<^verbatim>\<open>write_file\<close> with target \<^verbatim>\<open>json\<close> does not fail: it returns and logs nothing,
  \<^verbatim>\<open>json.dump\<close> has written the key as the string \<^verbatim>\<open>"1"\<close>, and the file reads back as
  another value.
\<close>

theorem integer_key_coerced_counterexample:
  "fst (load_file sample_libs sample_fs ''intkey.yaml'' ''yaml'') = Inr int_key_value \<and>
   \<not> generic int_key_value \<and>
   fst (write_file sample_libs sample_fs int_key_value ''out.json'' ''json'') = None \<and>
   snd (snd (write_file sample_libs sample_fs int_key_value ''out.json'' ''json'')) = [] \<and>
   text_at (fst (snd (write_file sample_libs sample_fs int_key_value ''out.json'' ''json'')))
     ''out.json'' = Some int_key_json \<and>
   json_load sample_libs int_key_json = Inr str_key_value \<and>
   str_key_value \<noteq> int_key_value"
proof -
  have 1: "fst (load_file sample_libs sample_fs ''intkey.yaml'' ''yaml'') = Inr int_key_value"
    by code_simp
  have 2: "\<not> generic int_key_value" by code_simp
  have 3: "fst (write_file sample_libs sample_fs int_key_value ''out.json'' ''json'') = None"
    by code_simp
  have 4: "snd (snd (write_file sample_libs sample_fs int_key_value ''out.json'' ''json'')) = []"
    by code_simp
  have 5: "text_at (fst (snd (write_file sample_libs sample_fs int_key_value
      ''out.json'' ''json''))) ''out.json'' = Some int_key_json"
    by code_simp
  have 6: "json_load sample_libs int_key_json = Inr str_key_value" by code_simp
  have 7: "str_key_value \<noteq> int_key_value" by code_simp
  from 1 2 3 4 5 6 7 show ?thesis by blast
qed

text \<open>
  Claim C4, amended. Every value, and so every value tree that \<^verbatim>\<open>load_file\<close> returns
  whatever the input format, reaches the serializer of the target format as it is:
  either \<^verbatim>\<open>write_file\<close> returns, and then the serializer of the target format has
  accepted this very value and the file holds exactly the text that serializer wrote
  for it; or \<^verbatim>\<open>write_file\<close> raises, and then it has logged at level ERROR. Whenever the
  serializer of the target format refuses the value, \<^verbatim>\<open>write_file\<close> raises. The program
  has no check of its own: a value the target format cannot represent fails only when
  the serializer refuses it, and is written without an error when the serializer
  coerces it.
\<close>

theorem loaded_tree_serialized_or_refused:
  "(case write_file L fs data output_path target of
      (None, fs', lg) \<Rightarrow>
        (\<exists>dump. serializer_of L target = Some dump \<and> snd (dump data) = None \<and>
           text_at fs' output_path = Some (fst (dump data)))
    | (Some e, fs', lg) \<Rightarrow> lg \<noteq> [] \<and> list_all (\<lambda>r. fst r = ERROR) lg) \<and>
   (\<forall>dump e. serializer_of L target = Some dump \<and> snd (dump data) = Some e \<longrightarrow>
      fst (write_file L fs data output_path target) \<noteq> None)"
  using write_file_outcome [where L = L and fs = fs and data = data and p = output_path
      and fmt = target]
    write_file_refusal [where L = L and fmt = target and data = data and fs = fs
      and p = output_path]
  by blast

theorem loaded_tree_serialized_or_refused_witness:
  "serializer_of sample_libs ''toml'' = Some (toml_dump sample_libs) \<and>
   snd (toml_dump sample_libs (Sequence [Integer 1, Integer 2])) =
     Some (raise_exc TypeError ''list indices must be integers or slices, not str'') \<and>
   fst (write_file sample_libs sample_fs (Sequence [Integer 1, Integer 2])
          ''out.toml'' ''toml'') \<noteq> None"
proof -
  have s: "serializer_of sample_libs ''toml'' = Some (toml_dump sample_libs)"
    by (simp add: serializer_of_def)
  have d: "snd (toml_dump sample_libs (Sequence [Integer 1, Integer 2])) =
      Some (raise_exc TypeError ''list indices must be integers or slices, not str'')"
    by (simp add: sample_libs_def)
  from loaded_tree_serialized_or_refused
    [where output_path = "''out.toml''" and target = "''toml''" and L = sample_libs
       and fs = sample_fs, THEN conjunct2, rule_format, OF conjI, OF s d]
  have "fst (write_file sample_libs sample_fs (Sequence [Integer 1, Integer 2])
      ''out.toml'' ''toml'') \<noteq> None" .
  with s d show ?thesis by blast
qed

section \<open>Load, write, load again\<close>




section \<open>Equal format tags\<close>

lemma same_format_warning_equal:
  "input_format a = output_format a \<Longrightarrow>
   same_format_warning a =
     [(WARNING, ''Input and output formats are the same.  No conversion will occur.'')]"
  by (simp add: same_format_warning_def)

lemma final_fs_main_try_loaded:
  "fst (load_file L fs (input_file a) (input_format a)) = Inr data \<Longrightarrow>
   final_fs (main_try L fs a) =
     fst (snd (write_file L fs data (output_file a) (output_format a)))"
  by (auto simp: main_try_def final_fs_def split: prod.splits sum.splits option.splits)

lemma converted_loaded:
  "fst (load_file L fs (input_file a) (input_format a)) = Inr data \<Longrightarrow>
   converted L fs a = (fst (write_file L fs data (output_file a) (output_format a)) = None)"
  by (simp add: converted_def)

lemma last_logged_converted:
  "converted L fs a \<Longrightarrow> last (logged (main L fs a)) = (INFO, success_message a)"
  by (auto simp: converted_def main_def main_try_def logged_def
           split: prod.splits sum.splits option.splits)

lemma converts_and_reloads:
  assumes loaded: "fst (load_file L fs (input_file a) (input_format a)) = Inr data"
      and dump: "serializer_of L (output_format a) = Some dump"
      and parse: "parser_of L (output_format a) = Some parse"
      and accepted: "snd (dump data) = None"
      and opened: "open_write fs (output_file a) = Inr fs1"
      and readable: "readable_once_written fs (output_file a)"
  shows "exit_code (main L fs a) = 0 \<and>
         last (logged (main L fs a)) = (INFO, success_message a) \<and>
         text_at (final_fs (main L fs a)) (output_file a) = Some (fst (dump data)) \<and>
         (\<forall>v. (fst (load_file L (final_fs (main L fs a)) (output_file a)
                      (output_format a)) = Inr v) =
              (parse (fst (dump data)) = Inr v))"
proof -
  note r = reload_written [OF dump parse accepted opened readable]
  from r have w: "write_file L fs data (output_file a) (output_format a) =
      (None, set_text fs1 (output_file a) (fst (dump data)), [])"
    by blast
  with loaded have c: "converted L fs a" by (simp add: converted_loaded)
  from w loaded have f: "final_fs (main L fs a) =
      set_text fs1 (output_file a) (fst (dump data))"
    by (simp add: final_fs_main final_fs_main_try_loaded)
  from c have "exit_code (main L fs a) = 0"
    by (simp add: exit_code_main exit_code_main_try)
  moreover from c have "last (logged (main L fs a)) = (INFO, success_message a)"
    by (rule last_logged_converted)
  moreover from r have "text_at (final_fs (main L fs a)) (output_file a) =
      Some (fst (dump data))"
    unfolding f by blast
  moreover from r have "\<forall>v. (fst (load_file L (final_fs (main L fs a)) (output_file a)
                      (output_format a)) = Inr v) =
              (parse (fst (dump data)) = Inr v)"
    unfolding f by blast
  ultimately show ?thesis by blast
qed

text \<open>
  Claim C5, as the spec states it, fails. With input and output format \<^verbatim>\<open>yaml\<close> and the
  input document \<^verbatim>\<open>!!omap [a: 1]\<close>, the run logs the warning and exits with status 0, but
  the output is not semantically equal to the input: it holds the pair under the tag
  \<^verbatim>\<open>!!python/tuple\<close>, and loading it as \<^verbatim>\<open>yaml\<close> raises the parse error.
\<close>

theorem omap_same_format_counterexample:
  "input_format (sample_args ''omap.yaml'' ''yaml'' ''out.yaml'' ''yaml'') =
     output_format (sample_args ''omap.yaml'' ''yaml'' ''out.yaml'' ''yaml'') \<and>
   fst (load_file sample_libs sample_fs ''omap.yaml'' ''yaml'') = Inr omap_value \<and>
   hd (logged (main sample_libs sample_fs
                 (sample_args ''omap.yaml'' ''yaml'' ''out.yaml'' ''yaml''))) =
     (WARNING, ''Input and output formats are the same.  No conversion will occur.'') \<and>
   exit_code (main sample_libs sample_fs
                (sample_args ''omap.yaml'' ''yaml'' ''out.yaml'' ''yaml'')) = 0 \<and>
   text_at (final_fs (main sample_libs sample_fs
                        (sample_args ''omap.yaml'' ''yaml'' ''out.yaml'' ''yaml'')))
     ''out.yaml'' = Some omap_yaml_out \<and>
   fst (load_file sample_libs
          (final_fs (main sample_libs sample_fs
                       (sample_args ''omap.yaml'' ''yaml'' ''out.yaml'' ''yaml'')))
          ''out.yaml'' ''yaml'') =
     Inl (raise_exc ValueError
            (''Error parsing YAML file: '' @
             msg (constructor_error ''tag:yaml.org,2002:python/tuple'')))"
proof -
  let ?a = "sample_args ''omap.yaml'' ''yaml'' ''out.yaml'' ''yaml''"
  have 1: "input_format ?a = output_format ?a" by code_simp
  have 2: "fst (load_file sample_libs sample_fs ''omap.yaml'' ''yaml'') = Inr omap_value"
    by code_simp
  have 3: "hd (logged (main sample_libs sample_fs ?a)) =
     (WARNING, ''Input and output formats are the same.  No conversion will occur.'')"
    by code_simp
  have 4: "exit_code (main sample_libs sample_fs ?a) = 0" by code_simp
  have 5: "text_at (final_fs (main sample_libs sample_fs ?a)) ''out.yaml'' =
      Some omap_yaml_out"
    by code_simp
  have 6: "fst (load_file sample_libs (final_fs (main sample_libs sample_fs ?a))
          ''out.yaml'' ''yaml'') =
     Inl (raise_exc ValueError
            (''Error parsing YAML file: '' @
             msg (constructor_error ''tag:yaml.org,2002:python/tuple'')))"
    by code_simp
  from 1 2 3 4 5 6 show ?thesis by blast
qed

text \<open>
  Claim C5, amended. When the input format tag equals the output format tag, \<^verbatim>\<open>main\<close> logs
  the record \<^verbatim>\<open>WARNING Input and output formats are the same.  No conversion will occur.\<close>
  first and then runs its \<^verbatim>\<open>try\<close> block as ever: the exit status, the file system left
  and the remaining records are those of loading and writing. When moreover the input
  file loads to a value the serializer of the format accepts, and the output path opens
  for writing and is readable afterwards, the run ends with status 0 and the success
  record, the output file holds exactly the text the serializer wrote for the value
  loaded, and loading the output file in the same format returns a value exactly when
  the parser of the format returns that value for that text. The output is semantically
  equal to the input exactly when the library round-trips the value loaded.
\<close>

theorem same_format_warns_and_proceeds:
  assumes same: "input_format a = output_format a"
  shows "logged (main L fs a) =
           (WARNING, ''Input and output formats are the same.  No conversion will occur.'')
             # logged (main_try L fs a) \<and>
         exit_code (main L fs a) = exit_code (main_try L fs a) \<and>
         final_fs (main L fs a) = final_fs (main_try L fs a) \<and>
         (\<forall>data dump parse fs1.
            fst (load_file L fs (input_file a) (input_format a)) = Inr data \<and>
            serializer_of L (output_format a) = Some dump \<and>
            parser_of L (output_format a) = Some parse \<and>
            snd (dump data) = None \<and>
            open_write fs (output_file a) = Inr fs1 \<and>
            readable_once_written fs (output_file a) \<longrightarrow>
              exit_code (main L fs a) = 0 \<and>
              last (logged (main L fs a)) = (INFO, success_message a) \<and>
              text_at (final_fs (main L fs a)) (output_file a) = Some (fst (dump data)) \<and>
              (\<forall>v. (fst (load_file L (final_fs (main L fs a)) (output_file a)
                           (output_format a)) = Inr v) =
                   (parse (fst (dump data)) = Inr v)))"
proof (intro conjI)
  show "logged (main L fs a) =
      (WARNING, ''Input and output formats are the same.  No conversion will occur.'')
        # logged (main_try L fs a)"
    by (simp only: logged_main same_format_warning_equal [OF same] append.simps)
  show "exit_code (main L fs a) = exit_code (main_try L fs a)" by (rule exit_code_main)
  show "final_fs (main L fs a) = final_fs (main_try L fs a)" by (rule final_fs_main)
  show "\<forall>data dump parse fs1.
            fst (load_file L fs (input_file a) (input_format a)) = Inr data \<and>
            serializer_of L (output_format a) = Some dump \<and>
            parser_of L (output_format a) = Some parse \<and>
            snd (dump data) = None \<and>
            open_write fs (output_file a) = Inr fs1 \<and>
            readable_once_written fs (output_file a) \<longrightarrow>
              exit_code (main L fs a) = 0 \<and>
              last (logged (main L fs a)) = (INFO, success_message a) \<and>
              text_at (final_fs (main L fs a)) (output_file a) = Some (fst (dump data)) \<and>
              (\<forall>v. (fst (load_file L (final_fs (main L fs a)) (output_file a)
                           (output_format a)) = Inr v) =
                   (parse (fst (dump data)) = Inr v))"
  proof (intro allI impI)
    fix data dump parse fs1
    assume h: "fst (load_file L fs (input_file a) (input_format a)) = Inr data \<and>
            serializer_of L (output_format a) = Some dump \<and>
            parser_of L (output_format a) = Some parse \<and>
            snd (dump data) = None \<and>
            open_write fs (output_file a) = Inr fs1 \<and>
            readable_once_written fs (output_file a)"
    show "exit_code (main L fs a) = 0 \<and>
              last (logged (main L fs a)) = (INFO, success_message a) \<and>
              text_at (final_fs (main L fs a)) (output_file a) = Some (fst (dump data)) \<and>
              (\<forall>v. (fst (load_file L (final_fs (main L fs a)) (output_file a)
                           (output_format a)) = Inr v) =
                   (parse (fst (dump data)) = Inr v))"
      by (rule converts_and_reloads) (use h in blast)+
  qed
qed

theorem same_format_warns_and_proceeds_witness:
  "input_format (sample_args ''map.yaml'' ''yaml'' ''out.yaml'' ''yaml'') =
     output_format (sample_args ''map.yaml'' ''yaml'' ''out.yaml'' ''yaml'') \<and>
   fst (load_file sample_libs sample_fs ''map.yaml'' ''yaml'') = Inr map_value \<and>
   serializer_of sample_libs ''yaml'' = Some (\<lambda>data. yaml_dump sample_libs data 2) \<and>
   parser_of sample_libs ''yaml'' = Some (\<lambda>f. yaml_load sample_libs f SafeLoader) \<and>
   snd (yaml_dump sample_libs map_value 2) = None \<and>
   open_write sample_fs ''out.yaml'' =
     Inr (sample_fs\<lparr>nodes := (nodes sample_fs)(''out.yaml'' \<mapsto> RegularFile [] True True)\<rparr>) \<and>
   readable_once_written sample_fs ''out.yaml'' \<and>
   hd (logged (main sample_libs sample_fs (sample_args ''map.yaml'' ''yaml'' ''out.yaml'' ''yaml''))) =
     (WARNING, ''Input and output formats are the same.  No conversion will occur.'') \<and>
   exit_code (main sample_libs sample_fs (sample_args ''map.yaml'' ''yaml'' ''out.yaml'' ''yaml'')) = 0 \<and>
   text_at (final_fs (main sample_libs sample_fs
                        (sample_args ''map.yaml'' ''yaml'' ''out.yaml'' ''yaml'')))
     ''out.yaml'' = Some (fst (yaml_dump sample_libs map_value 2)) \<and>
   yaml_load sample_libs (fst (yaml_dump sample_libs map_value 2)) SafeLoader =
     Inr map_value \<and>
   fst (load_file sample_libs
          (final_fs (main sample_libs sample_fs
                       (sample_args ''map.yaml'' ''yaml'' ''out.yaml'' ''yaml'')))
          ''out.yaml'' ''yaml'') = Inr map_value"
proof -
  let ?a = "sample_args ''map.yaml'' ''yaml'' ''out.yaml'' ''yaml''"
  let ?fs1 = "sample_fs\<lparr>nodes := (nodes sample_fs)(''out.yaml'' \<mapsto> RegularFile [] True True)\<rparr>"
  let ?dump = "\<lambda>data. yaml_dump sample_libs data 2"
  let ?parse = "\<lambda>f. yaml_load sample_libs f SafeLoader"
  have sel: "input_file ?a = ''map.yaml''" "input_format ?a = ''yaml''"
    "output_file ?a = ''out.yaml''" "output_format ?a = ''yaml''"
    by (simp_all add: sample_args_def)
  have same: "input_format ?a = output_format ?a" by (simp add: sel)
  have l: "fst (load_file sample_libs sample_fs ''map.yaml'' ''yaml'') = Inr map_value"
    by code_simp
  have s: "serializer_of sample_libs ''yaml'' = Some ?dump"
    by (simp add: serializer_of_def)
  have p: "parser_of sample_libs ''yaml'' = Some ?parse"
    by (simp add: parser_of_def)
  have d: "snd (?dump map_value) = None" by (simp add: sample_libs_def)
  have o: "open_write sample_fs ''out.yaml'' = Inr ?fs1"
    by (rule sample_open_out) (simp add: sample_fs_def)
  have r: "readable_once_written sample_fs ''out.yaml''" by code_simp
  note T = same_format_warns_and_proceeds [where L = sample_libs and fs = sample_fs, OF same]
  have h: "fst (load_file sample_libs sample_fs (input_file ?a) (input_format ?a)) =
        Inr map_value \<and>
      serializer_of sample_libs (output_format ?a) = Some ?dump \<and>
      parser_of sample_libs (output_format ?a) = Some ?parse \<and>
      snd (?dump map_value) = None \<and>
      open_write sample_fs (output_file ?a) = Inr ?fs1 \<and>
      readable_once_written sample_fs (output_file ?a)"
    using l s p d o r by (simp only: sel simp_thms)
  from T [THEN conjunct1]
  have w: "hd (logged (main sample_libs sample_fs ?a)) =
     (WARNING, ''Input and output formats are the same.  No conversion will occur.'')"
    by (simp only: list.sel)
  have j: "yaml_load sample_libs (fst (?dump map_value)) SafeLoader = Inr map_value"
    by code_simp
  note C = T [THEN conjunct2, THEN conjunct2, THEN conjunct2, rule_format, OF h]
  from C [THEN conjunct2, THEN conjunct2, THEN conjunct2, rule_format, of map_value] j
  have v: "fst (load_file sample_libs (final_fs (main sample_libs sample_fs ?a))
      ''out.yaml'' ''yaml'') = Inr map_value"
    by (simp only: sel simp_thms)
  from C
  have c: "exit_code (main sample_libs sample_fs ?a) = 0 \<and>
      text_at (final_fs (main sample_libs sample_fs ?a)) ''out.yaml'' =
        Some (fst (?dump map_value))"
    by (simp only: sel simp_thms)
  from same l s p d o r w c j v show ?thesis by blast
qed

section \<open>YAML is parsed with the safe loader\<close>

lemma load_file_yaml:
  "open_read fs p = Inr f \<Longrightarrow>
   load_file L fs p ''yaml'' =
     (case load_yaml L f of
        Inr data \<Rightarrow> (Inr data, [])
      | Inl e \<Rightarrow> (Inl e, load_file_except p e))"
  by (simp add: load_file_def load_file_body_yaml)

lemma load_yaml_cong:
  "yaml_load L' f SafeLoader = yaml_load L f SafeLoader \<Longrightarrow> load_yaml L' f = load_yaml L f"
  by (simp add: load_yaml_def)

lemma load_file_yaml_value:
  "open_read fs p = Inr f \<Longrightarrow> fst (load_file L fs p ''yaml'') = Inr data \<Longrightarrow>
   yaml_load L f SafeLoader = Inr data"
  by (auto simp: load_file_yaml dest: load_yaml_value split: sum.splits)

lemma load_file_yaml_returns:
  "open_read fs p = Inr f \<Longrightarrow> yaml_load L f SafeLoader = Inr data \<Longrightarrow>
   load_file L fs p ''yaml'' = (Inr data, [])"
  by (simp add: load_file_yaml load_yaml_returns)

text \<open>
  Claim C9, as stated, fails in its second half. The safe loader constructs more than
  null, booleans, numbers, strings, sequences and mappings of string keys: the YAML
  document \<^verbatim>\<open>2001-12-14\<close> loads to a \<^verbatim>\<open>datetime.date\<close>, and the document \<^verbatim>\<open>1: a\<close> to a
  mapping with an integer key. \<^verbatim>\<open>load_file\<close> returns both as they are.
\<close>

theorem safe_loader_values_counterexample:
  "load_file sample_libs sample_fs ''date.yaml'' ''yaml'' =
     (Inr (Opaque ''datetime.date''), []) \<and>
   \<not> generic (Opaque ''datetime.date'') \<and>
   load_file sample_libs sample_fs ''intkey.yaml'' ''yaml'' = (Inr int_key_value, []) \<and>
   \<not> generic int_key_value"
proof -
  have 1: "load_file sample_libs sample_fs ''date.yaml'' ''yaml'' =
      (Inr (Opaque ''datetime.date''), [])"
    by code_simp
  have 2: "\<not> generic (Opaque ''datetime.date'')" by simp
  have 3: "load_file sample_libs sample_fs ''intkey.yaml'' ''yaml'' = (Inr int_key_value, [])"
    by code_simp
  have 4: "\<not> generic int_key_value" by code_simp
  from 1 2 3 4 show ?thesis by blast
qed

text \<open>
  Claim C9, amended. Let the input file open. When PyYAML's \<^verbatim>\<open>SafeLoader\<close> rejects its text
  with a \<^verbatim>\<open>YAMLError\<close>, as it does for a tag outside the safe schema such as a python
  object-construction tag, \<^verbatim>\<open>load_file\<close> with format \<^verbatim>\<open>yaml\<close> raises the \<^verbatim>\<open>ValueError\<close>
  \<^verbatim>\<open>Error parsing YAML file: ...\<close>, logs it at ERROR and returns no value. YAML parsing
  uses the \<^verbatim>\<open>SafeLoader\<close> and no other loader: two libraries that agree on the
  \<^verbatim>\<open>SafeLoader\<close> give the same result, and every value \<^verbatim>\<open>load_file\<close> returns for \<^verbatim>\<open>yaml\<close> is
  the very object the \<^verbatim>\<open>SafeLoader\<close> constructed, be it a null, a boolean, a number, a
  string, a sequence or a mapping, or another object of the safe schema.
\<close>

theorem yaml_parsed_by_safe_loader:
  assumes opened: "open_read fs file_path = Inr f"
  shows "(\<forall>e. yaml_load L f SafeLoader = Inl e \<and> isinstance e YAMLError \<longrightarrow>
            load_file L fs file_path ''yaml'' =
              (Inl (raise_exc ValueError (''Error parsing YAML file: '' @ msg e)),
               [(ERROR, ''Error parsing YAML file: '' @ msg e)])) \<and>
         (\<forall>data. (fst (load_file L fs file_path ''yaml'') = Inr data) =
            (yaml_load L f SafeLoader = Inr data)) \<and>
         (\<forall>L'. yaml_load L' f SafeLoader = yaml_load L f SafeLoader \<longrightarrow>
            load_file L' fs file_path ''yaml'' = load_file L fs file_path ''yaml'')"
proof (intro conjI allI impI)
  fix e :: exn
  assume "yaml_load L f SafeLoader = Inl e \<and> isinstance e YAMLError"
  then have "load_yaml L f =
      Inl (raise_exc ValueError (''Error parsing YAML file: '' @ msg e))"
    by (simp add: load_yaml_rejects)
  then show "load_file L fs file_path ''yaml'' =
      (Inl (raise_exc ValueError (''Error parsing YAML file: '' @ msg e)),
       [(ERROR, ''Error parsing YAML file: '' @ msg e)])"
    by (simp only: load_file_yaml [OF opened] sum.case load_file_except_ValueError)
next
  fix data
  show "(fst (load_file L fs file_path ''yaml'') = Inr data) =
      (yaml_load L f SafeLoader = Inr data)"
    using load_file_yaml_value [OF opened] load_file_yaml_returns [OF opened]
    by (metis fst_conv)
next
  fix L' :: libs
  assume "yaml_load L' f SafeLoader = yaml_load L f SafeLoader"
  then have "load_yaml L' f = load_yaml L f" by (rule load_yaml_cong)
  then show "load_file L' fs file_path ''yaml'' = load_file L fs file_path ''yaml''"
    by (simp only: load_file_yaml [OF opened])
qed

theorem yaml_parsed_by_safe_loader_witness:
  "open_read sample_fs ''tagged.yaml'' = Inr ''!!python/object/apply:os.system [id]'' \<and>
   yaml_load sample_libs ''!!python/object/apply:os.system [id]'' SafeLoader =
     Inl (constructor_error ''tag:yaml.org,2002:python/object/apply:os.system'') \<and>
   isinstance (constructor_error ''tag:yaml.org,2002:python/object/apply:os.system'')
     YAMLError \<and>
   load_file sample_libs sample_fs ''tagged.yaml'' ''yaml'' =
     (Inl (raise_exc ValueError
             (''Error parsing YAML file: '' @
              msg (constructor_error ''tag:yaml.org,2002:python/object/apply:os.system''))),
      [(ERROR, ''Error parsing YAML file: '' @
          msg (constructor_error ''tag:yaml.org,2002:python/object/apply:os.system''))]) \<and>
   open_read sample_fs ''in.yaml'' = Inr ''{}'' \<and>
   fst (load_file sample_libs sample_fs ''in.yaml'' ''yaml'') = Inr (Mapping []) \<and>
   yaml_load sample_libs ''{}'' SafeLoader = Inr (Mapping [])"
proof -
  let ?doc = "''!!python/object/apply:os.system [id]''"
  let ?e = "constructor_error ''tag:yaml.org,2002:python/object/apply:os.system''"
  have r: "open_read sample_fs ''tagged.yaml'' = Inr ?doc" by code_simp
  have y: "yaml_load sample_libs ?doc SafeLoader = Inl ?e" by code_simp
  have i: "isinstance ?e YAMLError" by (simp add: constructor_error_def isinstance_raise)
  have r2: "open_read sample_fs ''in.yaml'' = Inr ''{}''" by code_simp
  have l2: "fst (load_file sample_libs sample_fs ''in.yaml'' ''yaml'') = Inr (Mapping [])"
    by code_simp
  note T = yaml_parsed_by_safe_loader [OF r, of sample_libs]
  note U = yaml_parsed_by_safe_loader [OF r2, of sample_libs]
  note l = T [THEN conjunct1, rule_format, OF conjI, OF y i]
  from U [THEN conjunct2, THEN conjunct1, rule_format, of "Mapping []"] l2
  have v: "yaml_load sample_libs ''{}'' SafeLoader = Inr (Mapping [])" by blast
  from r y i l r2 l2 v show ?thesis by blast
qed

end
